theory Spec2Isabelle
  imports Complex_Main
begin

section \<open>JavaScript values\<close>

text \<open>
  A value that is \<^verbatim>\<open>undefined\<close>, \<^verbatim>\<open>null\<close> or a reference to an object. Objects are
  compared by reference (\<^verbatim>\<open>===\<close>, \<^verbatim>\<open>!==\<close>, \<^verbatim>\<open>Array.prototype.includes\<close>), so an
  object is represented by its reference, and HOL equality on \<open>'a js\<close> is strict equality:
  \<^verbatim>\<open>undefined !== null\<close>, and two objects are equal exactly when they are the same one.
\<close>

datatype 'a js = Undefined | Null | Obj 'a

fun truthy :: "'a js \<Rightarrow> bool" where
  "truthy (Obj a) = True"
| "truthy Undefined = False"
| "truthy Null = False"

text \<open>\<^verbatim>\<open>a && a.f\<close>: a falsy \<^verbatim>\<open>a\<close> is the result itself, otherwise the field is read.\<close>

fun js_and :: "'a js \<Rightarrow> ('a \<Rightarrow> 'b js) \<Rightarrow> 'b js" where
  "js_and Undefined f = Undefined"
| "js_and Null f = Null"
| "js_and (Obj a) f = f a"

text \<open>\<^verbatim>\<open>xs.includes(x)\<close> on an array of references.\<close>

definition js_includes :: "'a list \<Rightarrow> 'a \<Rightarrow> bool" where
  "js_includes xs x = (x \<in> set xs)"

section \<open>Data model\<close>

text \<open>References to DOM elements (or the objects a plugin puts in their place), to
  \<^verbatim>\<open>JitsiTrack\<close> objects of the media library, and to callback functions.\<close>

type_synonym elem = nat
type_synonym jt = nat
type_synonym callback = nat

text \<open>The redux representation of a track: an object of which the component reads the
  field \<^verbatim>\<open>jitsiTrack\<close> only. Its other fields are the extension part of the record.\<close>

record redux_track =
  jitsiTrack :: "jt js"

text \<open>The component's properties (\<^verbatim>\<open>propTypes\<close>); \<^verbatim>\<open>id\<close> is written \<open>id'\<close>. An
  optional property that is not given is \<open>Undefined\<close>.\<close>

record 'z props =
  className :: string
  id' :: string
  onVideoPlaying :: "callback js"
  videoTrack :: "'z redux_track_scheme js"

text \<open>The two fields of a video element that the component writes. \<open>OnVideoPlaying\<close> is
  the bound method \<^verbatim>\<open>this._onVideoPlaying\<close>.\<close>

datatype handler = OnVideoPlaying

record element =
  volume :: real
  onplaying :: "handler option"

text \<open>What the component does to the outside, in program order: the writes to element
  fields, the calls into the media library (\<open>LibAttach t c r\<close>: \<^verbatim>\<open>t.attach(c)\<close> returned
  \<open>r\<close>; \<open>LibDetach t c\<close>: \<^verbatim>\<open>t.detach(c)\<close>) and the invocations of the
  \<^verbatim>\<open>onVideoPlaying\<close> property.\<close>

datatype effect =
    SetVolume elem real
  | SetOnplaying elem handler
  | LibAttach jt "elem js" "elem js"
  | LibDetach jt "elem js"
  | Invoke callback

fun is_attach :: "effect \<Rightarrow> bool" where
  "is_attach (LibAttach t c r) = True"
| "is_attach e = False"

fun is_detach :: "effect \<Rightarrow> bool" where
  "is_detach (LibDetach t c) = True"
| "is_detach e = False"

fun is_write :: "effect \<Rightarrow> bool" where
  "is_write (SetVolume e v) = True"
| "is_write (SetOnplaying e h) = True"
| "is_write e = False"

text \<open>The media library is not part of the component: it is a parameter. \<open>'l\<close> is the
  library's own state; \<^verbatim>\<open>track.attach(c)\<close> returns a surface and changes that state,
  \<^verbatim>\<open>track.detach(c)\<close> changes it, \<^verbatim>\<open>track.containers\<close> reads it.\<close>

record 'l jitsi_lib =
  attach :: "'l \<Rightarrow> jt \<Rightarrow> elem js \<Rightarrow> elem js \<times> 'l"
  detach :: "'l \<Rightarrow> jt \<Rightarrow> elem js \<Rightarrow> 'l"
  containers :: "'l \<Rightarrow> jt \<Rightarrow> elem js list"

text \<open>The component instance (\<^verbatim>\<open>this.props\<close>, \<^verbatim>\<open>this._videoElement\<close>) together with
  the part of the world it acts on: the library's state, the element fields as the
  component has written them, and the effects so far (oldest first).\<close>

record ('l, 'z) video =
  props :: "'z props"
  videoElement :: "elem js"
  lib :: 'l
  elements :: "elem \<Rightarrow> element"
  effects :: "effect list"

datatype error = TypeError

section \<open>The component\<close>

text \<open>\<^verbatim>\<open>constructor(props)\<close>: \<^verbatim>\<open>this._videoElement = null\<close>. The world the instance is
  created in is given by the library state \<open>l\<close> and the element fields \<open>els\<close>.\<close>

definition constructor :: "'z props \<Rightarrow> 'l \<Rightarrow> (elem \<Rightarrow> element) \<Rightarrow> ('l, 'z) video" where
  "constructor p l els =
     \<lparr>props = p, videoElement = Null, lib = l, elements = els, effects = []\<rparr>"

text \<open>\<^verbatim>\<open>_setVideoElement(element)\<close>\<close>

definition setVideoElement :: "elem js \<Rightarrow> ('l, 'z) video \<Rightarrow> ('l, 'z) video" where
  "setVideoElement element s = s\<lparr>videoElement := element\<rparr>"

text \<open>\<^verbatim>\<open>_onVideoPlaying()\<close>\<close>

definition onVideoPlaying_handler :: "('l, 'z) video \<Rightarrow> ('l, 'z) video" where
  "onVideoPlaying_handler s =
     (case onVideoPlaying (props s) of
        Obj cb \<Rightarrow> s\<lparr>effects := effects s @ [Invoke cb]\<rparr>
      | Undefined \<Rightarrow> s
      | Null \<Rightarrow> s)"

text \<open>\<^verbatim>\<open>_attachTrack(videoTrack)\<close>\<close>

definition attachTrack ::
  "'l jitsi_lib \<Rightarrow> 'z redux_track_scheme js \<Rightarrow> ('l, 'z) video \<Rightarrow> ('l, 'z) video" where
  "attachTrack L vt s =
     (if \<not> truthy vt \<or> \<not> truthy (js_and vt jitsiTrack) then s
      else case js_and vt jitsiTrack of
        Obj t \<Rightarrow>
          (case attach L (lib s) t (videoElement s) of
             (updatedVideoElement, l') \<Rightarrow>
               setVideoElement updatedVideoElement
                 (s\<lparr>lib := l',
                    effects := effects s @ [LibAttach t (videoElement s) updatedVideoElement]\<rparr>))
      | Undefined \<Rightarrow> s
      | Null \<Rightarrow> s)"

text \<open>\<^verbatim>\<open>_detachTrack(videoTrack)\<close>\<close>

definition detachTrack ::
  "'l jitsi_lib \<Rightarrow> 'z redux_track_scheme js \<Rightarrow> ('l, 'z) video \<Rightarrow> ('l, 'z) video" where
  "detachTrack L vt s =
     (if truthy (videoElement s) \<and> truthy vt \<and> truthy (js_and vt jitsiTrack)
      then case js_and vt jitsiTrack of
        Obj t \<Rightarrow>
          if js_includes (containers L (lib s) t) (videoElement s)
          then s\<lparr>lib := detach L (lib s) t (videoElement s),
                 effects := effects s @ [LibDetach t (videoElement s)]\<rparr>
          else s
      | Undefined \<Rightarrow> s
      | Null \<Rightarrow> s
      else s)"

text \<open>\<^verbatim>\<open>componentDidMount()\<close>: writing a field of \<^verbatim>\<open>null\<close> or \<^verbatim>\<open>undefined\<close> throws.\<close>

definition componentDidMount ::
  "'l jitsi_lib \<Rightarrow> ('l, 'z) video \<Rightarrow> error + ('l, 'z) video" where
  "componentDidMount L s =
     (case videoElement s of
        Obj e \<Rightarrow>
          let s1 = s\<lparr>elements := (elements s)(e := (elements s e)\<lparr>volume := 0\<rparr>),
                     effects := effects s @ [SetVolume e 0]\<rparr>;
              s2 = s1\<lparr>elements :=
                         (elements s1)(e := (elements s1 e)\<lparr>onplaying := Some OnVideoPlaying\<rparr>),
                       effects := effects s1 @ [SetOnplaying e OnVideoPlaying]\<rparr>
          in Inr (attachTrack L (videoTrack (props s)) s2)
      | Undefined \<Rightarrow> Inl TypeError
      | Null \<Rightarrow> Inl TypeError)"

text \<open>\<^verbatim>\<open>componentWillUnmount()\<close>\<close>

definition componentWillUnmount :: "'l jitsi_lib \<Rightarrow> ('l, 'z) video \<Rightarrow> ('l, 'z) video" where
  "componentWillUnmount L s = detachTrack L (videoTrack (props s)) s"

text \<open>\<^verbatim>\<open>shouldComponentUpdate(nextProps)\<close>: the returned flag and the state after.\<close>

definition shouldComponentUpdate ::
  "'l jitsi_lib \<Rightarrow> 'z props \<Rightarrow> ('l, 'z) video \<Rightarrow> bool \<times> ('l, 'z) video" where
  "shouldComponentUpdate L nextProps s =
     (let currentJitsiTrack = js_and (videoTrack (props s)) jitsiTrack;
          nextJitsiTrack = js_and (videoTrack nextProps) jitsiTrack
      in if currentJitsiTrack \<noteq> nextJitsiTrack
         then (False, attachTrack L (videoTrack nextProps)
                        (detachTrack L (videoTrack (props s)) s))
         else (False, s))"

text \<open>\<^verbatim>\<open>render()\<close>: a \<^verbatim>\<open>div\<close> around one \<^verbatim>\<open>video\<close> element. \<open>SetVideoElementRef\<close> is
  the bound method \<^verbatim>\<open>this._setVideoElement\<close>.\<close>

datatype ref_callback = SetVideoElementRef

datatype react_element =
    Div "react_element list"
  | VideoTag (autoPlay: bool) (classAttr: string) (idAttr: string) (refAttr: ref_callback)

definition render :: "('l, 'z) video \<Rightarrow> react_element" where
  "render s =
     Div [VideoTag True (className (props s)) (id' (props s)) SetVideoElementRef]"

section \<open>The host's lifecycle and the library's contract\<close>

text \<open>A track is attached to the component's surface when the surface exists and is one
  of the track's containers (the test \<^verbatim>\<open>_detachTrack\<close> makes before it detaches).\<close>

definition attached_to_surface :: "'l jitsi_lib \<Rightarrow> ('l, 'z) video \<Rightarrow> jt \<Rightarrow> bool" where
  "attached_to_surface L s t =
     (truthy (videoElement s) \<and> js_includes (containers L (lib s) t) (videoElement s))"

text \<open>Modelled from the spec: the external track library, which is not part of this
  repository. The spec describes \<^verbatim>\<open>containers\<close> as the set of surfaces currently bound
  to a track, \<^verbatim>\<open>attach\<close> as binding the track to a surface and returning the surface,
  possibly another object put in its place, and \<^verbatim>\<open>detach\<close> as unbinding. So: attaching
  a track to an element returns an element, which is then one of that track's containers
  and is either the element passed in or an object that was in no track's containers;
  detaching removes the surface from that track's containers; neither changes the
  containers of another track.\<close>

definition lib_contract :: "'l jitsi_lib \<Rightarrow> bool" where
  "lib_contract L =
     ((\<forall>l t e.
          truthy (fst (attach L l t (Obj e)))
          \<and> js_includes (containers L (snd (attach L l t (Obj e))) t) (fst (attach L l t (Obj e)))
          \<and> (fst (attach L l t (Obj e)) = Obj e
              \<or> (\<forall>t'. \<not> js_includes (containers L l t') (fst (attach L l t (Obj e)))))
          \<and> (\<forall>t'. t' \<noteq> t \<longrightarrow>
                set (containers L (snd (attach L l t (Obj e))) t') = set (containers L l t')))
      \<and> (\<forall>l t c.
            \<not> js_includes (containers L (detach L l t c) t) c
            \<and> (\<forall>t'. t' \<noteq> t \<longrightarrow>
                  set (containers L (detach L l t c) t') = set (containers L l t'))))"

text \<open>The phases of an instance's life in the host.\<close>

datatype phase = Constructed | Mounted | Unmounted

text \<open>Modelled from the spec: the host rendering system, which is not part of this
  repository. It constructs the instance, renders it and supplies the surface it created
  (an element that is in no track's containers) through the surface-capture callback
  before it calls the mount hook; while the instance is mounted it calls the update hook
  with the next configuration, which is the current configuration afterwards; and it
  calls the unmount hook once, at the end.\<close>

inductive reachable :: "'l jitsi_lib \<Rightarrow> phase \<Rightarrow> ('l, 'z) video \<Rightarrow> bool"
  for L :: "'l jitsi_lib" where
  construct: "reachable L Constructed (constructor p l els)"
| mount: "reachable L Constructed s \<Longrightarrow>
          \<forall>t. \<not> js_includes (containers L (lib s) t) (Obj e) \<Longrightarrow>
          componentDidMount L (setVideoElement (Obj e) s) = Inr s' \<Longrightarrow>
          reachable L Mounted s'"
| update: "reachable L Mounted s \<Longrightarrow>
           shouldComponentUpdate L nextProps s = (b, s') \<Longrightarrow>
           reachable L Mounted (s'\<lparr>props := nextProps\<rparr>)"
| unmount: "reachable L Mounted s \<Longrightarrow>
            reachable L Unmounted (componentWillUnmount L s)"

section \<open>Example inputs\<close>

text \<open>A library that attaches to the element it is given, and one that, like a plugin
  that renders video in an object of its own, puts a new object in the element's place.
  The state of both is the array of containers of every track.\<close>

definition plain_lib :: "(jt \<Rightarrow> elem js list) jitsi_lib" where
  "plain_lib =
     \<lparr>attach = (\<lambda>l t c. (c, l(t := l t @ [c]))),
      detach = (\<lambda>l t c. l(t := removeAll c (l t))),
      containers = (\<lambda>l t. l t)\<rparr>"

definition replacing_lib :: "(jt \<Rightarrow> elem js list) jitsi_lib" where
  "replacing_lib =
     \<lparr>attach = (\<lambda>l t c.
         let r = (case c of Obj e \<Rightarrow> Obj (e + 100) | Undefined \<Rightarrow> c | Null \<Rightarrow> c)
         in (r, l(t := l t @ [r]))),
      detach = (\<lambda>l t c. l(t := removeAll c (l t))),
      containers = (\<lambda>l t. l t)\<rparr>"

text \<open>Track wrappers with one more field, a flag; configurations with track 1, with
  track 2, with another wrapper of track 1, and with no track.\<close>

definition wrapper :: "jt js \<Rightarrow> bool \<Rightarrow> bool redux_track_scheme" where
  "wrapper h m = \<lparr>jitsiTrack = h, \<dots> = m\<rparr>"

definition config :: "bool redux_track_scheme js \<Rightarrow> bool props" where
  "config vt = \<lparr>className = ''video'', id' = ''v1'', onVideoPlaying = Obj 7, videoTrack = vt\<rparr>"

definition fresh_elements :: "elem \<Rightarrow> element" where
  "fresh_elements = (\<lambda>e. \<lparr>volume = 1, onplaying = None\<rparr>)"

text \<open>A constructed instance that was given element 10; and a mounted instance that
  shows track 1 on element 10.\<close>

definition supplied :: "bool redux_track_scheme js \<Rightarrow> (jt \<Rightarrow> elem js list, bool) video" where
  "supplied vt = setVideoElement (Obj 10) (constructor (config vt) (\<lambda>t. []) fresh_elements)"

definition showing_track1 :: "(jt \<Rightarrow> elem js list, bool) video" where
  "showing_track1 =
     \<lparr>props = config (Obj (wrapper (Obj 1) False)), videoElement = Obj 10,
      lib = (\<lambda>t. [])(1 := [Obj 10]), elements = fresh_elements, effects = []\<rparr>"

text \<open>The instance after it was created with track 1, given element 10 and mounted; and
  that instance after an update to a configuration with track 2.\<close>

definition mounted_track1 :: "(jt \<Rightarrow> elem js list, bool) video" where
  "mounted_track1 =
     (case componentDidMount plain_lib (supplied (Obj (wrapper (Obj 1) False))) of
        Inr s \<Rightarrow> s
      | Inl x \<Rightarrow> supplied (Obj (wrapper (Obj 1) False)))"

definition updated_to_track2 :: "(jt \<Rightarrow> elem js list, bool) video" where
  "updated_to_track2 =
     (snd (shouldComponentUpdate plain_lib (config (Obj (wrapper (Obj 2) True))) mounted_track1))
       \<lparr>props := config (Obj (wrapper (Obj 2) True))\<rparr>"

section \<open>Facts about the internal operations\<close>

lemma truthy_iff: "truthy x = (\<exists>a. x = Obj a)"
  by (cases x) simp_all

lemma handle_Obj_iff:
  "(js_and vt jitsiTrack = Obj t) = (\<exists>v. vt = Obj v \<and> jitsiTrack v = Obj t)"
  by (cases vt) simp_all

lemma attachTrack_handle:
  "js_and vt jitsiTrack = Obj t \<Longrightarrow>
   attachTrack L vt s =
     s\<lparr>videoElement := fst (attach L (lib s) t (videoElement s)),
       lib := snd (attach L (lib s) t (videoElement s)),
       effects := effects s @
         [LibAttach t (videoElement s) (fst (attach L (lib s) t (videoElement s)))]\<rparr>"
  by (cases vt) (simp_all add: attachTrack_def setVideoElement_def split: prod.splits)

lemma attachTrack_no_handle:
  "\<not> truthy (js_and vt jitsiTrack) \<Longrightarrow> attachTrack L vt s = s"
  by (simp add: attachTrack_def)

lemma detachTrack_attached:
  "js_and vt jitsiTrack = Obj t \<Longrightarrow> attached_to_surface L s t \<Longrightarrow>
   detachTrack L vt s =
     s\<lparr>lib := detach L (lib s) t (videoElement s),
       effects := effects s @ [LibDetach t (videoElement s)]\<rparr>"
  by (cases vt) (simp_all add: detachTrack_def attached_to_surface_def)

lemma detachTrack_not_attached:
  "js_and vt jitsiTrack = Obj t \<Longrightarrow> \<not> attached_to_surface L s t \<Longrightarrow> detachTrack L vt s = s"
  by (cases vt) (auto simp add: detachTrack_def attached_to_surface_def)

lemma detachTrack_no_handle:
  "\<not> truthy (js_and vt jitsiTrack) \<Longrightarrow> detachTrack L vt s = s"
  by (simp add: detachTrack_def)

lemma detachTrack_videoElement: "videoElement (detachTrack L vt s) = videoElement s"
  by (simp add: detachTrack_def split: js.splits)

lemma detachTrack_effects_cases:
  "effects (detachTrack L vt s) = effects s
   \<or> (\<exists>t. js_and vt jitsiTrack = Obj t \<and> attached_to_surface L s t
        \<and> effects (detachTrack L vt s) = effects s @ [LibDetach t (videoElement s)])"
proof (cases "js_and vt jitsiTrack")
  case (Obj t)
  then show ?thesis
    by (cases "attached_to_surface L s t")
      (simp_all add: detachTrack_attached detachTrack_not_attached)
qed (simp_all add: detachTrack_no_handle)

lemma componentDidMount_Obj:
  "videoElement s = Obj e \<Longrightarrow>
   componentDidMount L s =
     Inr (attachTrack L (videoTrack (props s))
            (s\<lparr>elements :=
                 (elements s)(e := (elements s e)\<lparr>volume := 0, onplaying := Some OnVideoPlaying\<rparr>),
               effects := effects s @ [SetVolume e 0, SetOnplaying e OnVideoPlaying]\<rparr>))"
  by (simp add: componentDidMount_def Let_def)

lemma attachTrack_frame:
  "elements (attachTrack L vt s) = elements s
   \<and> filter is_write (effects (attachTrack L vt s)) = filter is_write (effects s)"
  by (cases "js_and vt jitsiTrack") (simp_all add: attachTrack_handle attachTrack_no_handle)

lemma detachTrack_frame:
  "elements (detachTrack L vt s) = elements s
   \<and> filter is_write (effects (detachTrack L vt s)) = filter is_write (effects s)"
proof (cases "js_and vt jitsiTrack")
  case (Obj t)
  then show ?thesis
    by (cases "attached_to_surface L s t")
      (simp_all add: detachTrack_attached detachTrack_not_attached)
qed (simp_all add: detachTrack_no_handle)

lemma shouldComponentUpdate_frame:
  "elements (snd (shouldComponentUpdate L nextProps s)) = elements s
   \<and> filter is_write (effects (snd (shouldComponentUpdate L nextProps s)))
       = filter is_write (effects s)"
  by (simp add: shouldComponentUpdate_def Let_def attachTrack_frame detachTrack_frame)

section \<open>The update hook\<close>

text \<open>
  C1. For every current state and every next configuration, whether the track changed or
  not, \<^verbatim>\<open>shouldComponentUpdate\<close> returns false: the component is never rendered again
  because its properties changed.
\<close>

theorem shouldComponentUpdate_returns_false:
  "fst (shouldComponentUpdate L nextProps s) = False"
  by (simp add: shouldComponentUpdate_def Let_def)

theorem shouldComponentUpdate_returns_false_witness:
  "fst (shouldComponentUpdate plain_lib (config (Obj (wrapper (Obj 2) True))) showing_track1)
     = False"
  using shouldComponentUpdate_returns_false
    [of plain_lib "config (Obj (wrapper (Obj 2) True))" showing_track1]
  by simp

text \<open>
  C2, as stated: whenever the next configuration's \<^verbatim>\<open>jitsiTrack\<close> is not identical to
  the current one, the hook makes exactly one detach of the current track and then exactly
  one attach of the next track. This fails when a side has no track, or when the surface
  is not one of the current track's containers: an instance that shows track 1 on element
  10 and is updated to a configuration with no track detaches track 1 and attaches nothing.
\<close>

theorem shouldComponentUpdate_to_no_track_only_detaches:
  "js_and (videoTrack (props showing_track1)) jitsiTrack
     \<noteq> js_and (videoTrack (config Undefined)) jitsiTrack
   \<and> effects (snd (shouldComponentUpdate plain_lib (config Undefined) showing_track1))
       = [LibDetach 1 (Obj 10)]
   \<and> filter is_attach
        (effects (snd (shouldComponentUpdate plain_lib (config Undefined) showing_track1))) = []"
  by (simp add: shouldComponentUpdate_def showing_track1_def config_def wrapper_def
      detachTrack_def attachTrack_def plain_lib_def js_includes_def)

text \<open>
  C2, amended: whenever the next configuration's \<^verbatim>\<open>jitsiTrack\<close> is not identical to the
  current one, the hook runs \<^verbatim>\<open>_detachTrack\<close> on the current track, then \<^verbatim>\<open>_attachTrack\<close>
  on the next track, and returns false. The calls into the library that this makes are, in
  this order and no others: one detach of the current track from the stored surface,
  exactly when the current track has a \<^verbatim>\<open>jitsiTrack\<close> and the stored surface exists and
  is one of its containers; and one attach of the next track to the stored surface,
  exactly when the next track has a \<^verbatim>\<open>jitsiTrack\<close>.
\<close>

theorem shouldComponentUpdate_changed_track:
  "js_and (videoTrack (props s)) jitsiTrack \<noteq> js_and (videoTrack nextProps) jitsiTrack \<Longrightarrow>
   shouldComponentUpdate L nextProps s
     = (False, attachTrack L (videoTrack nextProps) (detachTrack L (videoTrack (props s)) s))
   \<and> effects (snd (shouldComponentUpdate L nextProps s))
     = effects s
       @ (case js_and (videoTrack (props s)) jitsiTrack of
            Obj t \<Rightarrow> if attached_to_surface L s t then [LibDetach t (videoElement s)] else []
          | Undefined \<Rightarrow> []
          | Null \<Rightarrow> [])
       @ (case js_and (videoTrack nextProps) jitsiTrack of
            Obj t' \<Rightarrow>
              [LibAttach t' (videoElement s)
                 (fst (attach L (lib (detachTrack L (videoTrack (props s)) s)) t' (videoElement s)))]
          | Undefined \<Rightarrow> []
          | Null \<Rightarrow> [])"
proof -
  assume changed:
    "js_and (videoTrack (props s)) jitsiTrack \<noteq> js_and (videoTrack nextProps) jitsiTrack"
  let ?cur = "videoTrack (props s)" and ?next = "videoTrack nextProps"
  let ?s1 = "detachTrack L ?cur s"
  have run: "shouldComponentUpdate L nextProps s = (False, attachTrack L ?next ?s1)"
    using changed by (simp add: shouldComponentUpdate_def Let_def)
  have d: "effects ?s1 = effects s
       @ (case js_and ?cur jitsiTrack of
            Obj t \<Rightarrow> if attached_to_surface L s t then [LibDetach t (videoElement s)] else []
          | Undefined \<Rightarrow> []
          | Null \<Rightarrow> [])"
  proof (cases "js_and ?cur jitsiTrack")
    case (Obj t)
    then show ?thesis
      by (cases "attached_to_surface L s t")
        (simp_all add: detachTrack_attached detachTrack_not_attached)
  qed (simp_all add: detachTrack_no_handle)
  have a: "effects (attachTrack L ?next ?s1) = effects ?s1
       @ (case js_and ?next jitsiTrack of
            Obj t' \<Rightarrow> [LibAttach t' (videoElement s) (fst (attach L (lib ?s1) t' (videoElement s)))]
          | Undefined \<Rightarrow> []
          | Null \<Rightarrow> [])"
  proof (cases "js_and ?next jitsiTrack")
    case (Obj t')
    then show ?thesis
      by (simp add: attachTrack_handle detachTrack_videoElement)
  qed (simp_all add: attachTrack_no_handle)
  show ?thesis
    using run d a by simp
qed

theorem shouldComponentUpdate_changed_track_witness:
  "js_and (videoTrack (props showing_track1)) jitsiTrack
     \<noteq> js_and (videoTrack (config (Obj (wrapper (Obj 2) False)))) jitsiTrack
   \<and> effects (snd (shouldComponentUpdate plain_lib (config (Obj (wrapper (Obj 2) False)))
        showing_track1))
     = [LibDetach 1 (Obj 10), LibAttach 2 (Obj 10) (Obj 10)]"
  using shouldComponentUpdate_changed_track
    [of showing_track1 "config (Obj (wrapper (Obj 2) False))" plain_lib]
  by (simp add: showing_track1_def config_def wrapper_def attached_to_surface_def
      plain_lib_def js_includes_def detachTrack_def attachTrack_def setVideoElement_def)

text \<open>
  C3. When the current and the next configuration hold the identical \<^verbatim>\<open>jitsiTrack\<close>
  (the same reference, whatever the records that wrap it are), the hook changes nothing:
  it makes no attach call and no detach call into the library.
\<close>

theorem shouldComponentUpdate_same_track:
  "js_and (videoTrack (props s)) jitsiTrack = js_and (videoTrack nextProps) jitsiTrack \<Longrightarrow>
   shouldComponentUpdate L nextProps s = (False, s)
   \<and> effects (snd (shouldComponentUpdate L nextProps s)) = effects s
   \<and> lib (snd (shouldComponentUpdate L nextProps s)) = lib s"
  by (simp add: shouldComponentUpdate_def)

theorem shouldComponentUpdate_same_track_witness:
  "videoTrack (props showing_track1) \<noteq> videoTrack (config (Obj (wrapper (Obj 1) True)))
   \<and> js_and (videoTrack (props showing_track1)) jitsiTrack
       = js_and (videoTrack (config (Obj (wrapper (Obj 1) True)))) jitsiTrack
   \<and> shouldComponentUpdate plain_lib (config (Obj (wrapper (Obj 1) True))) showing_track1
       = (False, showing_track1)
   \<and> effects (snd (shouldComponentUpdate plain_lib (config (Obj (wrapper (Obj 1) True)))
        showing_track1)) = []"
  using shouldComponentUpdate_same_track
    [of showing_track1 "config (Obj (wrapper (Obj 1) True))" plain_lib]
  by (simp add: showing_track1_def config_def wrapper_def)

section \<open>Attaching and detaching\<close>

text \<open>
  C4. After \<^verbatim>\<open>_attachTrack\<close> is called with a track that has a \<^verbatim>\<open>jitsiTrack\<close>, the
  stored surface \<^verbatim>\<open>_videoElement\<close> is the value that the library's attach call returned,
  whatever surface was passed in; and in every later state that still stores this surface,
  \<^verbatim>\<open>_detachTrack\<close> calls the library, if it calls it, with that returned surface.
\<close>

theorem attachTrack_stores_returned_surface:
  "js_and vt jitsiTrack = Obj t \<Longrightarrow>
   videoElement (attachTrack L vt s) = fst (attach L (lib s) t (videoElement s))
   \<and> effects (attachTrack L vt s)
       = effects s @ [LibAttach t (videoElement s) (fst (attach L (lib s) t (videoElement s)))]
   \<and> (videoElement s2 = videoElement (attachTrack L vt s) \<longrightarrow>
        effects (detachTrack L vt' s2) = effects s2
        \<or> (\<exists>t'. effects (detachTrack L vt' s2)
              = effects s2 @ [LibDetach t' (fst (attach L (lib s) t (videoElement s)))]))"
proof -
  assume h: "js_and vt jitsiTrack = Obj t"
  let ?s' = "attachTrack L vt s"
  have v: "videoElement ?s' = fst (attach L (lib s) t (videoElement s))"
    using h by (simp add: attachTrack_handle)
  have e: "effects ?s'
       = effects s @ [LibAttach t (videoElement s) (fst (attach L (lib s) t (videoElement s)))]"
    using h by (simp add: attachTrack_handle)
  have "effects (detachTrack L vt' s2) = effects s2
     \<or> (\<exists>t'. effects (detachTrack L vt' s2) = effects s2 @ [LibDetach t' (videoElement s2)])"
    using detachTrack_effects_cases [of L vt' s2] by blast
  with v e show ?thesis by auto
qed

theorem attachTrack_stores_returned_surface_witness:
  "js_and (Obj (wrapper (Obj 1) False)) jitsiTrack = Obj 1
   \<and> videoElement (supplied Undefined) = Obj 10
   \<and> videoElement (attachTrack replacing_lib (Obj (wrapper (Obj 1) False)) (supplied Undefined))
       = Obj 110
   \<and> effects (detachTrack replacing_lib (Obj (wrapper (Obj 1) False))
        (attachTrack replacing_lib (Obj (wrapper (Obj 1) False)) (supplied Undefined)))
       = [LibAttach 1 (Obj 10) (Obj 110), LibDetach 1 (Obj 110)]"
  using attachTrack_stores_returned_surface
    [where vt = "Obj (wrapper (Obj 1) False)" and t = 1 and L = replacing_lib
      and s = "supplied Undefined" and vt' = "Obj (wrapper (Obj 1) False)"
      and ?s2.0 = "attachTrack replacing_lib (Obj (wrapper (Obj 1) False)) (supplied Undefined)"]
  by (simp add: supplied_def constructor_def setVideoElement_def wrapper_def replacing_lib_def
      attachTrack_def detachTrack_def js_includes_def Let_def)

text \<open>
  C5. \<^verbatim>\<open>_detachTrack\<close> calls the library's detach if and only if a stored surface exists,
  the track argument is present, the track has a \<^verbatim>\<open>jitsiTrack\<close>, and the containers of
  that \<^verbatim>\<open>jitsiTrack\<close> include the stored surface. It then makes that one call, with the
  stored surface, and otherwise changes nothing. So unmounting calls detach if and only if
  these conditions hold of the current track.
\<close>

theorem detachTrack_calls_library_iff:
  "(effects (detachTrack L vt s) \<noteq> effects s)
     = (truthy (videoElement s)
        \<and> (\<exists>v t. vt = Obj v \<and> jitsiTrack v = Obj t
              \<and> js_includes (containers L (lib s) t) (videoElement s)))
   \<and> (effects (detachTrack L vt s) = effects s \<and> detachTrack L vt s = s
       \<or> (\<exists>t. js_and vt jitsiTrack = Obj t
            \<and> effects (detachTrack L vt s) = effects s @ [LibDetach t (videoElement s)]))
   \<and> (effects (componentWillUnmount L s) \<noteq> effects s)
     = (truthy (videoElement s)
        \<and> (\<exists>v t. videoTrack (props s) = Obj v \<and> jitsiTrack v = Obj t
              \<and> js_includes (containers L (lib s) t) (videoElement s)))"
proof -
  have main: "(effects (detachTrack L vt s) \<noteq> effects s)
     = (truthy (videoElement s)
        \<and> (\<exists>v t. vt = Obj v \<and> jitsiTrack v = Obj t
              \<and> js_includes (containers L (lib s) t) (videoElement s)))
   \<and> (effects (detachTrack L vt s) = effects s \<and> detachTrack L vt s = s
       \<or> (\<exists>t. js_and vt jitsiTrack = Obj t
            \<and> effects (detachTrack L vt s) = effects s @ [LibDetach t (videoElement s)]))"
    for vt :: "'b redux_track_scheme js"
  proof (cases "js_and vt jitsiTrack")
    case (Obj t)
    then obtain v where v: "vt = Obj v" "jitsiTrack v = Obj t"
      by (auto simp add: handle_Obj_iff)
    show ?thesis
    proof (cases "attached_to_surface L s t")
      case True
      then show ?thesis
        using Obj v by (simp add: detachTrack_attached) (auto simp add: attached_to_surface_def)
    next
      case False
      then show ?thesis
        using Obj v
        by (simp add: detachTrack_not_attached) (auto simp add: attached_to_surface_def)
    qed
  next
    case Undefined
    then show ?thesis
      by (cases vt) (auto simp add: detachTrack_no_handle)
  next
    case Null
    then show ?thesis
      by (cases vt) (auto simp add: detachTrack_no_handle)
  qed
  show ?thesis
    using main [of vt] main [of "videoTrack (props s)"]
    by (simp add: componentWillUnmount_def)
qed

theorem detachTrack_calls_library_iff_witness:
  "effects (componentWillUnmount plain_lib showing_track1) = [LibDetach 1 (Obj 10)]
   \<and> js_includes (containers plain_lib (lib showing_track1) 1) (videoElement showing_track1)
   \<and> effects (detachTrack plain_lib (Obj (wrapper (Obj 2) False)) showing_track1) = []
   \<and> \<not> js_includes (containers plain_lib (lib showing_track1) 2) (videoElement showing_track1)"
  using detachTrack_calls_library_iff [of plain_lib "Obj (wrapper (Obj 2) False)" showing_track1]
  by (simp add: showing_track1_def config_def wrapper_def plain_lib_def js_includes_def
      componentWillUnmount_def detachTrack_def)

text \<open>
  C8. When the track argument is absent or has no \<^verbatim>\<open>jitsiTrack\<close>, \<^verbatim>\<open>_attachTrack\<close>
  does nothing: no call into the library, and the stored surface stays as it is. So
  mounting with such a track makes no attach call (it only writes the two element fields).
\<close>

theorem attachTrack_without_track_is_noop:
  "\<not> truthy vt \<or> (\<exists>v. vt = Obj v \<and> \<not> truthy (jitsiTrack v)) \<Longrightarrow>
   attachTrack L vt s = s
   \<and> (videoElement s = Obj e \<and> videoTrack (props s) = vt \<longrightarrow>
        (\<exists>s'. componentDidMount L s = Inr s'
           \<and> filter is_attach (effects s') = filter is_attach (effects s)
           \<and> effects s' = effects s @ [SetVolume e 0, SetOnplaying e OnVideoPlaying]
           \<and> lib s' = lib s
           \<and> videoElement s' = videoElement s))"
proof -
  assume "\<not> truthy vt \<or> (\<exists>v. vt = Obj v \<and> \<not> truthy (jitsiTrack v))"
  then have no: "\<not> truthy (js_and vt jitsiTrack)"
    by (cases vt) auto
  have noop: "attachTrack L vt s0 = s0" for s0
    using no by (rule attachTrack_no_handle)
  show ?thesis
    by (auto simp add: noop componentDidMount_Obj)
qed

theorem attachTrack_without_track_is_noop_witness:
  "\<not> truthy (Null :: bool redux_track_scheme js)
   \<and> attachTrack plain_lib Null (supplied Null) = supplied Null
   \<and> (\<exists>s'. componentDidMount plain_lib (supplied Null) = Inr s'
        \<and> filter is_attach (effects s') = []
        \<and> videoElement s' = Obj 10)
   \<and> attachTrack plain_lib (Obj (wrapper Undefined True)) (supplied Null) = supplied Null"
  using attachTrack_without_track_is_noop [of Null plain_lib "supplied Null" 10]
    attachTrack_without_track_is_noop [of "Obj (wrapper Undefined True)" plain_lib "supplied Null" 10]
  by (simp add: supplied_def constructor_def setVideoElement_def config_def wrapper_def
      componentDidMount_def attachTrack_def Let_def)

section \<open>Mounting\<close>

text \<open>
  C7. Mounting when the surface has been supplied succeeds; it sets the surface's volume
  to zero, then registers \<^verbatim>\<open>_onVideoPlaying\<close> as its \<^verbatim>\<open>onplaying\<close> handler, and only
  then attaches the current track: with a track that has a \<^verbatim>\<open>jitsiTrack\<close> this is
  exactly one attach call, to the supplied surface. The handler invokes the
  \<^verbatim>\<open>onVideoPlaying\<close> property when there is one and does nothing otherwise.
\<close>

theorem componentDidMount_mutes_registers_attaches:
  "videoElement s = Obj e \<Longrightarrow>
   (\<exists>s'. componentDidMount L s = Inr s'
      \<and> volume (elements s' e) = 0
      \<and> onplaying (elements s' e) = Some OnVideoPlaying
      \<and> effects s' = effects s @ [SetVolume e 0, SetOnplaying e OnVideoPlaying]
          @ (case js_and (videoTrack (props s)) jitsiTrack of
               Obj t \<Rightarrow> [LibAttach t (Obj e) (fst (attach L (lib s) t (Obj e)))]
             | Undefined \<Rightarrow> []
             | Null \<Rightarrow> []))
   \<and> effects (onVideoPlaying_handler s)
       = effects s @ (case onVideoPlaying (props s) of
                        Obj cb \<Rightarrow> [Invoke cb] | Undefined \<Rightarrow> [] | Null \<Rightarrow> [])"
proof -
  assume e: "videoElement s = Obj e"
  let ?s2 = "s\<lparr>elements :=
                 (elements s)(e := (elements s e)\<lparr>volume := 0, onplaying := Some OnVideoPlaying\<rparr>),
               effects := effects s @ [SetVolume e 0, SetOnplaying e OnVideoPlaying]\<rparr>"
  let ?s' = "attachTrack L (videoTrack (props s)) ?s2"
  have run: "componentDidMount L s = Inr ?s'"
    using e by (rule componentDidMount_Obj)
  have els: "elements ?s' = elements ?s2"
    by (cases "js_and (videoTrack (props s)) jitsiTrack")
      (simp_all add: attachTrack_handle attachTrack_no_handle)
  have eff: "effects ?s' = effects s @ [SetVolume e 0, SetOnplaying e OnVideoPlaying]
          @ (case js_and (videoTrack (props s)) jitsiTrack of
               Obj t \<Rightarrow> [LibAttach t (Obj e) (fst (attach L (lib s) t (Obj e)))]
             | Undefined \<Rightarrow> []
             | Null \<Rightarrow> [])"
    using e by (cases "js_and (videoTrack (props s)) jitsiTrack")
      (simp_all add: attachTrack_handle attachTrack_no_handle)
  have h: "effects (onVideoPlaying_handler s)
       = effects s @ (case onVideoPlaying (props s) of
                        Obj cb \<Rightarrow> [Invoke cb] | Undefined \<Rightarrow> [] | Null \<Rightarrow> [])"
    by (simp add: onVideoPlaying_handler_def split: js.splits)
  show ?thesis
    using run els eff h by simp
qed

theorem componentDidMount_mutes_registers_attaches_witness:
  "videoElement (supplied (Obj (wrapper (Obj 1) False))) = Obj 10
   \<and> (\<exists>s'. componentDidMount replacing_lib (supplied (Obj (wrapper (Obj 1) False))) = Inr s'
        \<and> volume (elements s' 10) = 0
        \<and> effects s' = [SetVolume 10 0, SetOnplaying 10 OnVideoPlaying,
                         LibAttach 1 (Obj 10) (Obj 110)]
        \<and> length (filter is_attach (effects s')) = 1)
   \<and> effects (onVideoPlaying_handler (supplied (Obj (wrapper (Obj 1) False)))) = [Invoke 7]"
  using componentDidMount_mutes_registers_attaches
    [of "supplied (Obj (wrapper (Obj 1) False))" 10 replacing_lib]
  by (auto simp add: supplied_def constructor_def setVideoElement_def config_def wrapper_def
      replacing_lib_def Let_def onVideoPlaying_handler_def)

text \<open>
  C9. Only mounting writes the volume and the \<^verbatim>\<open>onplaying\<close> handler, and it writes them
  on the element that is the stored surface at that moment. \<^verbatim>\<open>_attachTrack\<close> stores the
  surface that the library returns and writes neither field, on no element; nor do
  \<^verbatim>\<open>_detachTrack\<close>, the update hook, the unmount hook, \<^verbatim>\<open>_setVideoElement\<close> and
  \<^verbatim>\<open>_onVideoPlaying\<close>. (What the library itself does to an element is not part of the
  component.)
\<close>

theorem only_componentDidMount_writes_element_fields:
  "elements (attachTrack L vt s) = elements s
   \<and> filter is_write (effects (attachTrack L vt s)) = filter is_write (effects s)
   \<and> (js_and vt jitsiTrack = Obj t \<longrightarrow>
        videoElement (attachTrack L vt s) = fst (attach L (lib s) t (videoElement s)))
   \<and> elements (detachTrack L vt s) = elements s
   \<and> filter is_write (effects (detachTrack L vt s)) = filter is_write (effects s)
   \<and> elements (snd (shouldComponentUpdate L nextProps s)) = elements s
   \<and> filter is_write (effects (snd (shouldComponentUpdate L nextProps s)))
       = filter is_write (effects s)
   \<and> elements (componentWillUnmount L s) = elements s
   \<and> filter is_write (effects (componentWillUnmount L s)) = filter is_write (effects s)
   \<and> elements (setVideoElement x s) = elements s
   \<and> effects (setVideoElement x s) = effects s
   \<and> elements (onVideoPlaying_handler s) = elements s
   \<and> filter is_write (effects (onVideoPlaying_handler s)) = filter is_write (effects s)
   \<and> (videoElement s = Obj e \<longrightarrow>
        (\<exists>s'. componentDidMount L s = Inr s'
           \<and> elements s'
               = (elements s)(e := (elements s e)\<lparr>volume := 0, onplaying := Some OnVideoPlaying\<rparr>)
           \<and> filter is_write (effects s')
               = filter is_write (effects s) @ [SetVolume e 0, SetOnplaying e OnVideoPlaying]))"
proof -
  have a: "js_and vt jitsiTrack = Obj t \<longrightarrow>
        videoElement (attachTrack L vt s) = fst (attach L (lib s) t (videoElement s))"
    by (simp add: attachTrack_handle)
  have u: "elements (componentWillUnmount L s) = elements s
     \<and> filter is_write (effects (componentWillUnmount L s)) = filter is_write (effects s)"
    by (simp add: componentWillUnmount_def detachTrack_frame)
  have r: "elements (setVideoElement x s) = elements s \<and> effects (setVideoElement x s) = effects s"
    by (simp add: setVideoElement_def)
  have p: "elements (onVideoPlaying_handler s) = elements s
     \<and> filter is_write (effects (onVideoPlaying_handler s)) = filter is_write (effects s)"
    by (simp add: onVideoPlaying_handler_def split: js.splits)
  have m: "videoElement s = Obj e \<longrightarrow>
        (\<exists>s'. componentDidMount L s = Inr s'
           \<and> elements s'
               = (elements s)(e := (elements s e)\<lparr>volume := 0, onplaying := Some OnVideoPlaying\<rparr>)
           \<and> filter is_write (effects s')
               = filter is_write (effects s) @ [SetVolume e 0, SetOnplaying e OnVideoPlaying])"
    by (simp add: componentDidMount_Obj attachTrack_frame)
  show ?thesis
    using attachTrack_frame [of L vt s] detachTrack_frame [of L vt s]
      shouldComponentUpdate_frame [of L nextProps s] a u r p m
    by blast
qed

theorem only_componentDidMount_writes_element_fields_witness:
  "videoElement (supplied (Obj (wrapper (Obj 1) False))) = Obj 10
   \<and> (\<exists>s'. componentDidMount replacing_lib (supplied (Obj (wrapper (Obj 1) False))) = Inr s'
        \<and> videoElement s' = Obj 110
        \<and> elements s' 110 = \<lparr>volume = 1, onplaying = None\<rparr>
        \<and> elements s' 10 = \<lparr>volume = 0, onplaying = Some OnVideoPlaying\<rparr>
        \<and> filter is_write (effects s') = [SetVolume 10 0, SetOnplaying 10 OnVideoPlaying])"
  using only_componentDidMount_writes_element_fields
    [of replacing_lib "Obj (wrapper (Obj 1) False)" "supplied (Obj (wrapper (Obj 1) False))"
      1 "config Null" Null 10]
  by (simp add: supplied_def constructor_def setVideoElement_def config_def wrapper_def
      replacing_lib_def Let_def componentDidMount_def attachTrack_def fresh_elements_def)

section \<open>Rendering\<close>

text \<open>
  C10. What \<^verbatim>\<open>render\<close> returns depends on the properties \<^verbatim>\<open>className\<close> and \<^verbatim>\<open>id\<close>
  only: two instances that agree on these render the same tree, whatever their tracks and
  \<^verbatim>\<open>onVideoPlaying\<close> callbacks are. The tree is a \<^verbatim>\<open>div\<close> around one \<^verbatim>\<open>video\<close>
  element with \<^verbatim>\<open>autoPlay\<close>, the class, the id and the surface-capture callback.
\<close>

theorem render_depends_on_className_and_id:
  "className (props s1) = className (props s2) \<Longrightarrow> id' (props s1) = id' (props s2) \<Longrightarrow>
   render s1 = render s2
   \<and> render s1 = Div [VideoTag True (className (props s1)) (id' (props s1)) SetVideoElementRef]"
  by (simp add: render_def)

theorem render_depends_on_className_and_id_witness:
  "videoTrack (props showing_track1) \<noteq> videoTrack (props (supplied Null))
   \<and> render showing_track1 = render (supplied Null)
   \<and> render showing_track1 = Div [VideoTag True ''video'' ''v1'' SetVideoElementRef]"
  using render_depends_on_className_and_id [of showing_track1 "supplied Null"]
  by (simp add: showing_track1_def supplied_def constructor_def setVideoElement_def config_def
      render_def)

section \<open>The lifecycle\<close>

lemma contract_attach:
  assumes "lib_contract L" and "attach L l t (Obj e) = (r, l')"
  shows "truthy r"
    and "js_includes (containers L l' t) r"
    and "r = Obj e \<or> (\<forall>t'. \<not> js_includes (containers L l t') r)"
    and "t' \<noteq> t \<Longrightarrow> set (containers L l' t') = set (containers L l t')"
proof -
  from assms(1) have all: "truthy (fst (attach L l t (Obj e)))
          \<and> js_includes (containers L (snd (attach L l t (Obj e))) t) (fst (attach L l t (Obj e)))
          \<and> (fst (attach L l t (Obj e)) = Obj e
              \<or> (\<forall>t'. \<not> js_includes (containers L l t') (fst (attach L l t (Obj e)))))
          \<and> (\<forall>t'. t' \<noteq> t \<longrightarrow>
                set (containers L (snd (attach L l t (Obj e))) t') = set (containers L l t'))"
    unfolding lib_contract_def by simp
  from all show "truthy r"
    by (simp add: assms(2))
  from all show "js_includes (containers L l' t) r"
    by (simp add: assms(2))
  from all show "r = Obj e \<or> (\<forall>t'. \<not> js_includes (containers L l t') r)"
    by (simp add: assms(2))
  from all show "t' \<noteq> t \<Longrightarrow> set (containers L l' t') = set (containers L l t')"
    by (simp add: assms(2))
qed

lemma contract_detach:
  assumes "lib_contract L"
  shows "\<not> js_includes (containers L (detach L l t c) t) c"
    and "t' \<noteq> t \<Longrightarrow> set (containers L (detach L l t c) t') = set (containers L l t')"
proof -
  from assms have all: "\<not> js_includes (containers L (detach L l t c) t) c
            \<and> (\<forall>t'. t' \<noteq> t \<longrightarrow>
                  set (containers L (detach L l t c) t') = set (containers L l t'))"
    unfolding lib_contract_def by simp
  from all show "\<not> js_includes (containers L (detach L l t c) t) c"
    by simp
  from all show "t' \<noteq> t \<Longrightarrow> set (containers L (detach L l t c) t') = set (containers L l t')"
    by simp
qed

lemma detachTrack_leaves_none_attached:
  assumes c: "lib_contract L"
    and only: "\<And>t. attached_to_surface L s t \<Longrightarrow> js_and vt jitsiTrack = Obj t"
  shows "\<not> attached_to_surface L (detachTrack L vt s) t"
proof (cases "js_and vt jitsiTrack")
  case (Obj t0)
  show ?thesis
  proof (cases "attached_to_surface L s t0")
    case True
    let ?l' = "detach L (lib s) t0 (videoElement s)"
    have s1: "detachTrack L vt s =
        s\<lparr>lib := ?l', effects := effects s @ [LibDetach t0 (videoElement s)]\<rparr>"
      using Obj True by (rule detachTrack_attached)
    show ?thesis
    proof (cases "t = t0")
      case True
      then show ?thesis
        using contract_detach(1) [OF c, of "lib s" t0 "videoElement s"]
        by (simp add: s1 attached_to_surface_def)
    next
      case False
      have "\<not> attached_to_surface L s t"
        using only [of t] Obj False by auto
      then show ?thesis
        using contract_detach(2) [OF c False, of "lib s" "videoElement s"]
        by (simp add: s1 attached_to_surface_def js_includes_def)
    qed
  next
    case False
    then have "detachTrack L vt s = s"
      using Obj by (simp add: detachTrack_not_attached)
    moreover have "\<not> attached_to_surface L s t"
      using only [of t] Obj False by auto
    ultimately show ?thesis by simp
  qed
next
  case Undefined
  then show ?thesis
    using only [of t] by (auto simp add: detachTrack_no_handle)
next
  case Null
  then show ?thesis
    using only [of t] by (auto simp add: detachTrack_no_handle)
qed

lemma attachTrack_only_that_track:
  assumes c: "lib_contract L"
    and e: "videoElement s = Obj e"
    and none: "\<And>t. \<not> attached_to_surface L s t"
  shows "truthy (videoElement (attachTrack L vt s))"
    and "attached_to_surface L (attachTrack L vt s) t \<Longrightarrow> js_and vt jitsiTrack = Obj t"
proof -
  show "truthy (videoElement (attachTrack L vt s))"
  proof (cases "js_and vt jitsiTrack")
    case (Obj t0)
    obtain r l' where a: "attach L (lib s) t0 (Obj e) = (r, l')"
      by (cases "attach L (lib s) t0 (Obj e)")
    then show ?thesis
      using Obj e contract_attach(1) [OF c a] by (simp add: attachTrack_handle)
  qed (simp_all add: attachTrack_no_handle e)
  show "js_and vt jitsiTrack = Obj t" if att: "attached_to_surface L (attachTrack L vt s) t"
  proof (cases "js_and vt jitsiTrack")
    case (Obj t0)
    obtain r l' where a: "attach L (lib s) t0 (Obj e) = (r, l')"
      by (cases "attach L (lib s) t0 (Obj e)")
    have s': "attachTrack L vt s =
        s\<lparr>videoElement := r, lib := l', effects := effects s @ [LibAttach t0 (Obj e) r]\<rparr>"
      using Obj e a by (simp add: attachTrack_handle)
    have "t = t0"
    proof (rule ccontr)
      assume ne: "t \<noteq> t0"
      have in_old: "js_includes (containers L (lib s) t) r"
        using att contract_attach(4) [OF c a ne]
        by (simp add: s' attached_to_surface_def js_includes_def)
      from contract_attach(3) [OF c a] show False
      proof
        assume "r = Obj e"
        then have "attached_to_surface L s t"
          using in_old e by (simp add: attached_to_surface_def)
        with none show False by blast
      next
        assume "\<forall>t'. \<not> js_includes (containers L (lib s) t') r"
        with in_old show False by blast
      qed
    qed
    with Obj show ?thesis by simp
  next
    case Undefined
    then show ?thesis
      using att none by (simp add: attachTrack_no_handle)
  next
    case Null
    then show ?thesis
      using att none by (simp add: attachTrack_no_handle)
  qed
qed

lemma reachable_invariant:
  assumes c: "lib_contract L" and r: "reachable L ph s"
  shows "(ph = Mounted \<longrightarrow> truthy (videoElement s))
    \<and> (\<forall>t. attached_to_surface L s t \<longrightarrow> js_and (videoTrack (props s)) jitsiTrack = Obj t)"
  using r
proof (induction rule: reachable.induct)
  case (construct p l els)
  then show ?case
    by (simp add: constructor_def attached_to_surface_def)
next
  case (mount s e s')
  let ?s2 = "(setVideoElement (Obj e) s)
      \<lparr>elements := (elements s)(e := (elements s e)\<lparr>volume := 0, onplaying := Some OnVideoPlaying\<rparr>),
        effects := effects s @ [SetVolume e 0, SetOnplaying e OnVideoPlaying]\<rparr>"
  have s': "s' = attachTrack L (videoTrack (props s)) ?s2"
    using mount.hyps(3) by (simp add: componentDidMount_Obj setVideoElement_def)
  have e2: "videoElement ?s2 = Obj e"
    by (simp add: setVideoElement_def)
  have none: "\<not> attached_to_surface L ?s2 t" for t
    using mount.hyps(2) by (simp add: attached_to_surface_def setVideoElement_def)
  have p: "props s' = props s"
    by (cases "js_and (videoTrack (props s)) jitsiTrack")
      (simp_all add: s' attachTrack_handle attachTrack_no_handle setVideoElement_def)
  show ?case
    using attachTrack_only_that_track [OF c e2 none, of "videoTrack (props s)"]
    by (simp add: s' [symmetric] p)
next
  case (update s nextProps b s')
  from update.IH obtain e where e: "videoElement s = Obj e"
    by (auto simp add: truthy_iff)
  from update.IH have only:
    "attached_to_surface L s t \<Longrightarrow> js_and (videoTrack (props s)) jitsiTrack = Obj t" for t
    by blast
  have att_props: "attached_to_surface L (x\<lparr>props := nextProps\<rparr>) t = attached_to_surface L x t"
    for x :: "('a, 'b) video" and t
    by (simp add: attached_to_surface_def)
  show ?case
  proof (cases "js_and (videoTrack (props s)) jitsiTrack = js_and (videoTrack nextProps) jitsiTrack")
    case True
    then have "s' = s"
      using update.hyps(2) by (simp add: shouldComponentUpdate_def)
    then show ?thesis
      using update.IH True by (simp add: att_props)
  next
    case False
    let ?s1 = "detachTrack L (videoTrack (props s)) s"
    have s': "s' = attachTrack L (videoTrack nextProps) ?s1"
      using update.hyps(2) False by (simp add: shouldComponentUpdate_def Let_def)
    have e1: "videoElement ?s1 = Obj e"
      using e by (simp add: detachTrack_videoElement)
    have none: "\<not> attached_to_surface L ?s1 t" for t
      using detachTrack_leaves_none_attached [OF c only] by blast
    show ?thesis
      using attachTrack_only_that_track [OF c e1 none, of "videoTrack nextProps"]
      by (simp add: s' [symmetric] att_props)
  qed
next
  case (unmount s)
  from unmount.IH have only:
    "attached_to_surface L s t \<Longrightarrow> js_and (videoTrack (props s)) jitsiTrack = Obj t" for t
    by blast
  show ?case
    using detachTrack_leaves_none_attached [OF c only]
    by (simp add: componentWillUnmount_def)
qed

lemma plain_lib_contract: "lib_contract plain_lib"
  by (auto simp add: lib_contract_def plain_lib_def js_includes_def)

lemma mounted_track1_eq:
  "componentDidMount plain_lib (supplied (Obj (wrapper (Obj 1) False))) = Inr mounted_track1"
proof -
  have v: "videoElement (supplied (Obj (wrapper (Obj 1) False))) = Obj 10"
    by (simp add: supplied_def setVideoElement_def)
  show ?thesis
    unfolding mounted_track1_def componentDidMount_Obj [OF v] by simp
qed

lemma updated_to_track2_reachable: "reachable plain_lib Mounted updated_to_track2"
proof -
  have "reachable plain_lib Constructed
      (constructor (config (Obj (wrapper (Obj 1) False))) (\<lambda>t. []) fresh_elements)"
    by (rule reachable.construct)
  then have "reachable plain_lib Mounted mounted_track1"
  proof (rule reachable.mount [where e = 10])
    show "\<forall>t. \<not> js_includes (containers plain_lib
        (lib (constructor (config (Obj (wrapper (Obj 1) False))) (\<lambda>t. []) fresh_elements)) t) (Obj 10)"
      by (simp add: constructor_def plain_lib_def js_includes_def)
    show "componentDidMount plain_lib (setVideoElement (Obj 10)
        (constructor (config (Obj (wrapper (Obj 1) False))) (\<lambda>t. []) fresh_elements))
      = Inr mounted_track1"
      using mounted_track1_eq by (simp only: supplied_def)
  qed
  then show ?thesis
    unfolding updated_to_track2_def
    by (rule reachable.update [OF _ prod.collapse [symmetric]])
qed

lemma updated_to_track2_value:
  "videoElement updated_to_track2 = Obj 10 \<and> lib updated_to_track2 1 = []
   \<and> lib updated_to_track2 2 = [Obj 10]"
  by (simp add: updated_to_track2_def mounted_track1_def supplied_def constructor_def
      setVideoElement_def componentDidMount_def shouldComponentUpdate_def attachTrack_def
      detachTrack_def config_def wrapper_def plain_lib_def js_includes_def Let_def)

text \<open>
  C6. At most one track is attached to the component's surface at any time: in every state
  that the host's lifecycle (construct, supply the surface and mount, update, unmount)
  reaches, with a library that keeps its contract, two tracks whose containers include the
  stored surface are the same track, and it is the track of the current configuration.
\<close>

theorem at_most_one_track_attached:
  "lib_contract L \<Longrightarrow> reachable L ph s \<Longrightarrow>
   attached_to_surface L s t \<Longrightarrow> attached_to_surface L s t' \<Longrightarrow>
   t = t' \<and> js_and (videoTrack (props s)) jitsiTrack = Obj t"
proof -
  assume c: "lib_contract L" and r: "reachable L ph s"
    and a: "attached_to_surface L s t" and a': "attached_to_surface L s t'"
  from reachable_invariant [OF c r] a
  have h: "js_and (videoTrack (props s)) jitsiTrack = Obj t" by blast
  from reachable_invariant [OF c r] a'
  have h': "js_and (videoTrack (props s)) jitsiTrack = Obj t'" by blast
  from h h' show ?thesis by simp
qed

theorem at_most_one_track_attached_witness:
  "lib_contract plain_lib \<and> reachable plain_lib Mounted updated_to_track2
   \<and> attached_to_surface plain_lib updated_to_track2 2
   \<and> js_and (videoTrack (props updated_to_track2)) jitsiTrack = Obj 2
   \<and> \<not> attached_to_surface plain_lib updated_to_track2 1"
proof -
  have a: "attached_to_surface plain_lib updated_to_track2 2"
    using updated_to_track2_value
    by (simp add: attached_to_surface_def plain_lib_def js_includes_def)
  have h: "js_and (videoTrack (props updated_to_track2)) jitsiTrack = Obj 2"
    using at_most_one_track_attached [OF plain_lib_contract updated_to_track2_reachable a a]
    by simp
  have "\<not> attached_to_surface plain_lib updated_to_track2 1"
    using at_most_one_track_attached [OF plain_lib_contract updated_to_track2_reachable a, of 1]
    by auto
  with a h show ?thesis
    using plain_lib_contract updated_to_track2_reachable by simp
qed

end
